theory Spec2Isabelle
  imports Main
begin

section \<open>Python values and framework primitives\<close>

text \<open>
  The two modules are glue over a web framework. What the framework supplies
  (the request object, the response classes, the body parser, the serializer registry,
  the rendering of an error dictionary) is either modelled here in the few lines the
  modules rely on, or taken as a parameter of the function that calls it.
\<close>

subsection \<open>Exceptions\<close>

text \<open>
  A raise is a value \<open>Inl e\<close> of a result type \<open>error + 'a\<close>. \<open>Http404\<close> is the
  framework's "not found"; \<open>TypeError\<close> is what the interpreter raises when a
  function is called with arguments its signature does not take; \<open>FrameworkError\<close>
  stands for any exception that escapes a framework call.
\<close>

datatype error = Http404 | TypeError | FrameworkError string

subsection \<open>Strings\<close>

text \<open>
  \<open>str.upper\<close> on the ASCII range: the letters a to z are mapped to A to Z, every other
  character is left as it is.
\<close>

definition upper_char :: "char \<Rightarrow> char" where
  "upper_char c =
     (case map_of (zip ''abcdefghijklmnopqrstuvwxyz'' ''ABCDEFGHIJKLMNOPQRSTUVWXYZ'') c of
        Some u \<Rightarrow> u
      | None \<Rightarrow> c)"

definition upper :: "string \<Rightarrow> string" where
  "upper s = map upper_char s"

text \<open>\<open>sep.join(xs)\<close>.\<close>

fun join :: "string \<Rightarrow> string list \<Rightarrow> string" where
  "join sep [] = []"
| "join sep [x] = x"
| "join sep (x # y # ys) = x @ sep @ join sep (y # ys)"

text \<open>The decimal text of an integer, as \<open>'%s' % n\<close> prints it.\<close>

definition digit :: "nat \<Rightarrow> char" where
  "digit d = ''0123456789'' ! d"

fun str_nat :: "nat \<Rightarrow> string" where
  "str_nat n = (if n < 10 then [digit n] else str_nat (n div 10) @ [digit (n mod 10)])"

declare str_nat.simps [simp del]

definition str_int :: "int \<Rightarrow> string" where
  "str_int i = (if i < 0 then ''-'' @ str_nat (nat (- i)) else str_nat (nat i))"

subsection \<open>Requests\<close>

text \<open>
  The attributes of the framework's request object that the modules read or write.
  \<open>POST\<close> and \<open>FILES\<close> hold what the framework's body parser has filled in;
  \<open>PUT\<close> is an attribute the request does not have until \<open>load_put_and_files\<close>
  sets it.
\<close>

type_synonym querydict = "(string \<times> string) list"

record request =
  "method" :: string
  raw_post_data :: string
  POST :: querydict
  FILES :: querydict
  PUT :: "querydict option"

text \<open>
  A statement that runs for its effect on the request either returns or raises, and in
  both cases leaves the request in some state.
\<close>

datatype completion = Returned | Raised error

text \<open>
  The framework's \<open>request._load_post_and_files()\<close>: it reads the request it is given
  (its method and raw body among the rest) and leaves a request with \<open>POST\<close> and
  \<open>FILES\<close> filled in, or raises on a body it cannot parse.
\<close>

type_synonym loader = "request \<Rightarrow> completion \<times> request"

subsection \<open>Responses\<close>

text \<open>
  \<open>HttpResponse(content, mimetype)\<close>: the body, the mimetype argument (\<open>None\<close> leaves
  the choice to the framework's settings), the status code, 200 unless set, and the
  headers added afterwards. \<open>response.write(s)\<close> appends to the body.
  \<open>HttpResponseNotAllowed(permitted_methods)\<close> is an empty response with status 405
  and an \<open>Allow\<close> header listing the methods.
\<close>

record response =
  content :: string
  content_type :: "string option"
  status_code :: int
  headers :: "(string \<times> string) list"

definition HttpResponse :: "string \<Rightarrow> string option \<Rightarrow> response" where
  "HttpResponse c m = \<lparr>content = c, content_type = m, status_code = 200, headers = []\<rparr>"

definition response_write :: "response \<Rightarrow> string \<Rightarrow> response" where
  "response_write r s = r\<lparr>content := content r @ s\<rparr>"

definition HttpResponseNotAllowed :: "string list \<Rightarrow> response" where
  "HttpResponseNotAllowed permitted =
     (HttpResponse [] None)
       \<lparr>status_code := 405, headers := [(''Allow'', join '', '' permitted)]\<rparr>"

section \<open>resource.py\<close>

subsection \<open>load_put_and_files\<close>

text \<open>
  For a request whose method is exactly \<open>'PUT'\<close>: relabel it \<open>'POST'\<close>, run the
  framework's parser, copy \<open>POST\<close> to \<open>PUT\<close>, relabel it \<open>'PUT'\<close>. There is no
  \<open>try\<close> around the parser: when it raises, the two statements after it do not run.
\<close>

definition load_put_and_files :: "loader \<Rightarrow> request \<Rightarrow> completion \<times> request" where
  "load_put_and_files load_post_and_files request =
     (if method request = ''PUT'' then
        (case load_post_and_files (request\<lparr>method := ''POST''\<rparr>) of
           (Raised e, r) \<Rightarrow> (Raised e, r)
         | (Returned, r) \<Rightarrow> (Returned, r\<lparr>PUT := Some (POST r), method := ''PUT''\<rparr>))
      else (Returned, request))"

subsection \<open>Resource\<close>

text \<open>
  The authentication object of a resource: \<open>is_authenticated(request)\<close>, the
  response that \<open>challenge()\<close> builds, and the truth value the object has in a
  test such as \<open>if self.authentication\<close>. An instance of a class that defines neither
  \<open>__nonzero__\<close> nor \<open>__len__\<close> is true; a class that defines one of them decides
  for its instances. The resource holds \<open>None\<close> or such an object.
\<close>

record authentication_object =
  truth_value :: bool
  is_authenticated :: "request \<Rightarrow> bool"
  challenge :: response

text \<open>
  A handler is called as \<open>handler(request, *args, **kwargs)\<close>; what it does with the
  positional and keyword arguments, its own signature included, is part of the handler.
\<close>

type_synonym 'a handler = "request \<Rightarrow> 'a list \<Rightarrow> (string \<times> 'a) list \<Rightarrow> error + response"

text \<open>
  A resource: the two attributes set by \<open>__init__\<close>, and the four methods that
  \<open>__call__\<close> looks up on \<open>self\<close>, which a subclass may override.
\<close>

record 'a resource =
  authentication :: "authentication_object option"
  permitted_methods :: "string list"
  create :: "'a handler"
  read :: "'a handler"
  update :: "'a handler"
  delete :: "'a handler"

text \<open>
  The four methods of the base class are \<open>def create(self, request): raise Http404\<close>
  and alike: they take the request and nothing else, so a call that passes anything
  more is a \<open>TypeError\<close> before the body runs.
\<close>

definition Resource_create :: "'a handler" where
  "Resource_create request args kwargs =
     (if args = [] \<and> kwargs = [] then Inl Http404 else Inl TypeError)"

definition Resource_read :: "'a handler" where
  "Resource_read request args kwargs =
     (if args = [] \<and> kwargs = [] then Inl Http404 else Inl TypeError)"

definition Resource_update :: "'a handler" where
  "Resource_update request args kwargs =
     (if args = [] \<and> kwargs = [] then Inl Http404 else Inl TypeError)"

definition Resource_delete :: "'a handler" where
  "Resource_delete request args kwargs =
     (if args = [] \<and> kwargs = [] then Inl Http404 else Inl TypeError)"

text \<open>
  \<open>Resource.__init__(self, authentication=None, permitted_methods=None)\<close>. The test
  \<open>if permitted_methods\<close> is false for \<open>None\<close> and for an empty sequence.
\<close>

definition Resource_init ::
  "authentication_object option \<Rightarrow> string list option \<Rightarrow> 'a resource" where
  "Resource_init auth permitted =
     \<lparr>authentication = auth,
      permitted_methods =
        (case permitted of
           Some (op # ops) \<Rightarrow> map upper (op # ops)
         | _ \<Rightarrow> [''GET'']),
      create = Resource_create,
      read = Resource_read,
      update = Resource_update,
      delete = Resource_delete\<rparr>"

text \<open>
  \<open>Resource.__call__(self, request, *args, **kwargs)\<close>. The permission check comes
  first and returns the challenge; it is made when \<open>self.authentication\<close> is true as a
  condition, which \<open>None\<close> is not. Then the allow-list check; then the branch on the
  upper-cased method.
\<close>

definition Resource_call ::
  "loader \<Rightarrow> 'a resource \<Rightarrow> request \<Rightarrow> 'a list \<Rightarrow> (string \<times> 'a) list \<Rightarrow> error + response" where
  "Resource_call load_post_and_files self request args kwargs =
     (case (case authentication self of
              None \<Rightarrow> None
            | Some a \<Rightarrow>
                if truth_value a then
                  (if \<not> is_authenticated a request then Some (challenge a) else None)
                else None) of
        Some challenged \<Rightarrow> Inr challenged
      | None \<Rightarrow>
          (let request_method = upper (method request) in
           if request_method \<notin> set (permitted_methods self) then
             Inr (HttpResponseNotAllowed (permitted_methods self))
           else if request_method = ''GET'' then read self request args kwargs
           else if request_method = ''POST'' then create self request args kwargs
           else if request_method = ''PUT'' then
             (case load_put_and_files load_post_and_files request of
                (Raised e, r) \<Rightarrow> Inl e
              | (Returned, r) \<Rightarrow> update self r args kwargs)
           else if request_method = ''DELETE'' then delete self request args kwargs
           else Inl Http404))"

text \<open>
  A request passes the permission check when the check is not made (the resource has no
  authentication object, or one that is false as a condition) or the object accepts the
  request.
\<close>

definition passes_authentication :: "'a resource \<Rightarrow> request \<Rightarrow> bool" where
  "passes_authentication self request =
     (case authentication self of
        None \<Rightarrow> True
      | Some a \<Rightarrow> (if truth_value a then is_authenticated a request else True))"

section \<open>responder.py\<close>

text \<open>
  A responder holds the name of a serialization format and a mimetype (\<open>None\<close> by
  default). The framework's \<open>serializers.serialize(format, queryset)\<close> is the parameter
  \<open>serialize\<close>; a queryset is the list of the objects it yields.
\<close>

record SerializeResponder =
  format :: string
  mimetype :: "string option"

definition SerializeResponder_init :: "string \<Rightarrow> string option \<Rightarrow> SerializeResponder" where
  "SerializeResponder_init fmt mt = \<lparr>format = fmt, mimetype = mt\<rparr>"

definition SerializeResponder_render ::
  "(string \<Rightarrow> 'o list \<Rightarrow> string) \<Rightarrow> SerializeResponder \<Rightarrow> 'o list \<Rightarrow> string" where
  "SerializeResponder_render serialize self queryset = serialize (format self) queryset"

definition SerializeResponder_element ::
  "(string \<Rightarrow> 'o list \<Rightarrow> string) \<Rightarrow> SerializeResponder \<Rightarrow> 'o \<Rightarrow> response" where
  "SerializeResponder_element serialize self elem =
     HttpResponse (SerializeResponder_render serialize self [elem]) (mimetype self)"

definition SerializeResponder_list ::
  "(string \<Rightarrow> 'o list \<Rightarrow> string) \<Rightarrow> SerializeResponder \<Rightarrow> 'o list \<Rightarrow> response" where
  "SerializeResponder_list serialize self queryset =
     HttpResponse (SerializeResponder_render serialize self queryset) (mimetype self)"

text \<open>
  The framework's \<open>ErrorDict\<close> is a dictionary from a field name to its list of
  messages: here the list of its items, which the test \<open>if error_dict\<close> takes as true
  when it is not empty. Its method \<open>as_text\<close> is the parameter \<open>as_text\<close>. The default
  value of the argument \<open>error_dict\<close> is the empty dictionary.
\<close>

type_synonym error_dict = "(string \<times> string list) list"

definition newline :: char where
  "newline = CHR 0x0A"

definition errors_heading :: string where
  "errors_heading = [newline, newline] @ ''Errors:'' @ [newline]"

definition SerializeResponder_error ::
  "(error_dict \<Rightarrow> string) \<Rightarrow> SerializeResponder \<Rightarrow> int \<Rightarrow> error_dict \<Rightarrow> response" where
  "SerializeResponder_error as_text self status error_dict =
     (let response = HttpResponse [] (mimetype self);
          response = response_write response (''Error '' @ str_int status);
          response =
            (if error_dict \<noteq> [] then
               response_write (response_write response errors_heading) (as_text error_dict)
             else response)
      in response\<lparr>status_code := status\<rparr>)"

definition JSONResponder_init :: SerializeResponder where
  "JSONResponder_init = SerializeResponder_init ''json'' (Some ''application/json'')"

definition XMLResponder_init :: SerializeResponder where
  "XMLResponder_init = SerializeResponder_init ''xml'' (Some ''application/xml'')"

section \<open>Example objects\<close>

text \<open>Concrete requests, parsers, handlers and resources, on which the theorems are run.\<close>

definition example_request :: "string \<Rightarrow> string \<Rightarrow> request" where
  "example_request m body =
     \<lparr>method = m, raw_post_data = body, POST = [], FILES = [], PUT = None\<rparr>"

definition example_loader :: loader where
  "example_loader r = (Returned, r\<lparr>POST := [(method r, raw_post_data r)]\<rparr>)"

definition failing_loader :: loader where
  "failing_loader r = (Raised (FrameworkError ''malformed body''), r)"

definition echo_handler :: "string \<Rightarrow> nat handler" where
  "echo_handler name request args kwargs =
     Inr (HttpResponse (name @ '' '' @ method request @ '' '' @ str_nat (length args + length kwargs))
            (Some ''text/plain''))"

definition example_resource :: "nat resource" where
  "example_resource =
     (Resource_init None (Some [''get'', ''Post'', ''PUT'', ''delete'', ''head'']))
       \<lparr>create := echo_handler ''create'', read := echo_handler ''read'',
        update := echo_handler ''update'', delete := echo_handler ''delete''\<rparr>"

definition base_resource :: "nat resource" where
  "base_resource = Resource_init None (Some [''get'', ''Post'', ''PUT'', ''delete''])"

definition rejecting_authentication :: authentication_object where
  "rejecting_authentication =
     \<lparr>truth_value = True, is_authenticated = (\<lambda>request. False),
      challenge = (HttpResponse ''Authorization Required'' None)\<lparr>status_code := 401\<rparr>\<rparr>"

text \<open>
  An authentication object of a class that keeps its credentials in a container and
  defines \<open>__len__\<close> on it: with no credentials stored it is false as a condition,
  and it accepts no request.
\<close>

definition empty_authentication :: authentication_object where
  "empty_authentication =
     \<lparr>truth_value = False, is_authenticated = (\<lambda>request. False),
      challenge = (HttpResponse ''Authorization Required'' None)\<lparr>status_code := 401\<rparr>\<rparr>"

definition accepting_authentication :: authentication_object where
  "accepting_authentication =
     \<lparr>truth_value = True, is_authenticated = (\<lambda>request. True),
      challenge = (HttpResponse ''Authorization Required'' None)\<lparr>status_code := 401\<rparr>\<rparr>"

definition example_serialize :: "string \<Rightarrow> nat list \<Rightarrow> string" where
  "example_serialize fmt queryset = fmt @ '':'' @ join '','' (map str_nat queryset)"

definition example_as_text :: "error_dict \<Rightarrow> string" where
  "example_as_text d = join [newline] (map (\<lambda>(k, v). ''* '' @ k) d)"

section \<open>Properties\<close>

subsection \<open>Helper facts\<close>

lemma upper_example_methods:
  "upper ''get'' = ''GET''" "upper ''Post'' = ''POST''" "upper ''PUT'' = ''PUT''"
  "upper ''delete'' = ''DELETE''" "upper ''head'' = ''HEAD''" "upper ''options'' = ''OPTIONS''"
  "upper ''GET'' = ''GET''" "upper ''POST'' = ''POST''" "upper ''DELETE'' = ''DELETE''"
  "upper ''HEAD'' = ''HEAD''" "upper ''put'' = ''PUT''"
  by (simp_all add: upper_def upper_char_def)

text \<open>
  Once the permission check and the allow-list check have let a request through, what is
  left of \<open>__call__\<close> is the branch on the upper-cased method.
\<close>

lemma permission_check_passed:
  assumes "passes_authentication self request"
  shows "(case authentication self of
            None \<Rightarrow> None
          | Some a \<Rightarrow>
              if truth_value a then
                (if \<not> is_authenticated a request then Some (challenge a) else None)
              else None) = None"
  using assms by (auto simp: passes_authentication_def split: option.splits)

lemma Resource_call_permitted:
  assumes "passes_authentication self request"
    and "upper (method request) \<in> set (permitted_methods self)"
  shows "Resource_call L self request args kwargs =
     (if upper (method request) = ''GET'' then read self request args kwargs
      else if upper (method request) = ''POST'' then create self request args kwargs
      else if upper (method request) = ''PUT'' then
        (case load_put_and_files L request of
           (Raised e, r) \<Rightarrow> Inl e
         | (Returned, r) \<Rightarrow> update self r args kwargs)
      else if upper (method request) = ''DELETE'' then delete self request args kwargs
      else Inl Http404)"
  using assms(2)
  by (simp add: Resource_call_def permission_check_passed [OF assms(1)] Let_def)

text \<open>A request that passes the permission check and fails the allow-list check.\<close>

lemma Resource_call_not_permitted:
  assumes "passes_authentication self request"
    and "upper (method request) \<notin> set (permitted_methods self)"
  shows "Resource_call L self request args kwargs =
     Inr (HttpResponseNotAllowed (permitted_methods self))"
  using assms(2)
  by (simp add: Resource_call_def permission_check_passed [OF assms(1)] Let_def)

text \<open>A request that the permission check turns away.\<close>

lemma Resource_call_challenged:
  assumes "authentication self = Some a" and "truth_value a"
    and "\<not> is_authenticated a request"
  shows "Resource_call L self request args kwargs = Inr (challenge a)"
  using assms by (simp add: Resource_call_def)

text \<open>
  The permission check reads the authentication object and the request and nothing
  else: two resources that differ in the authentication object only, on a request that
  passes the check of both, do the same.
\<close>

lemma Resource_call_authentication_irrelevant:
  assumes "passes_authentication self request"
    and "passes_authentication (self\<lparr>authentication := auth\<rparr>) request"
  shows "Resource_call L (self\<lparr>authentication := auth\<rparr>) request args kwargs =
     Resource_call L self request args kwargs"
proof (cases "upper (method request) \<in> set (permitted_methods self)")
  case True
  then have "upper (method request) \<in> set (permitted_methods (self\<lparr>authentication := auth\<rparr>))"
    by simp
  from Resource_call_permitted [OF assms(2) this] Resource_call_permitted [OF assms(1) True]
  show ?thesis by (simp split: prod.split completion.split)
next
  case False
  then have "upper (method request) \<notin> set (permitted_methods (self\<lparr>authentication := auth\<rparr>))"
    by simp
  from Resource_call_not_permitted [OF assms(2) this] Resource_call_not_permitted [OF assms(1) False]
  show ?thesis by simp
qed

text \<open>When the body parser raises, \<open>load_put_and_files\<close> raises with it.\<close>

lemma load_put_and_files_parser_raises:
  "method request = ''PUT'' \<Longrightarrow> L (request\<lparr>method := ''POST''\<rparr>) = (Raised e, r) \<Longrightarrow>
   load_put_and_files L request = (Raised e, r)"
  by (simp add: load_put_and_files_def)

text \<open>The decimal text of an integer has no line break in it.\<close>

lemma digit_not_newline: "d < 10 \<Longrightarrow> digit d \<noteq> newline"
proof -
  assume "d < 10"
  then have "d \<in> {0, 1, 2, 3, 4, 5, 6, 7, 8, 9}" by auto
  then show ?thesis
    by (auto simp: digit_def newline_def)
qed

lemma str_nat_no_newline: "newline \<notin> set (str_nat n)"
proof (induction n rule: str_nat.induct)
  case (1 n)
  show ?case
  proof (cases "n < 10")
    case True
    then show ?thesis
      using digit_not_newline [of n] by (simp add: str_nat.simps [of n])
  next
    case False
    have "n mod 10 < 10" by simp
    then have "digit (n mod 10) \<noteq> newline" by (rule digit_not_newline)
    with False 1 show ?thesis
      by (simp add: str_nat.simps [of n])
  qed
qed

lemma str_int_no_newline: "newline \<notin> set (str_int i)"
  by (simp add: str_int_def str_nat_no_newline) (simp add: newline_def)

subsection \<open>Resource.__call__\<close>

text \<open>
  Claim C1. For a request that passes the permission check and whose upper-cased method
  is in \<open>permitted_methods\<close>, \<open>__call__\<close> follows the table: GET goes to
  \<open>self.read\<close>, POST to \<open>self.create\<close>, DELETE to \<open>self.delete\<close>, each called with
  the request and the positional and keyword arguments as they came, and the handler's
  result (a response or an exception) is the result of \<open>__call__\<close>. PUT goes to
  \<open>self.update\<close> after \<open>load_put_and_files\<close> has run on the request: the handler gets
  the request as \<open>load_put_and_files\<close> left it, and an exception of the body parser
  leaves \<open>__call__\<close> before the handler is reached.
\<close>

theorem call_dispatch_table:
  assumes "passes_authentication self request"
    and "upper (method request) \<in> set (permitted_methods self)"
  shows
    "(upper (method request) = ''GET'' \<longrightarrow>
        Resource_call L self request args kwargs = read self request args kwargs) \<and>
     (upper (method request) = ''POST'' \<longrightarrow>
        Resource_call L self request args kwargs = create self request args kwargs) \<and>
     (upper (method request) = ''PUT'' \<longrightarrow>
        Resource_call L self request args kwargs =
          (case load_put_and_files L request of
             (Raised e, r) \<Rightarrow> Inl e
           | (Returned, r) \<Rightarrow> update self r args kwargs)) \<and>
     (upper (method request) = ''DELETE'' \<longrightarrow>
        Resource_call L self request args kwargs = delete self request args kwargs)"
  by (simp add: Resource_call_permitted [OF assms])

theorem call_dispatch_table_witness:
  "passes_authentication example_resource (example_request ''get'' []) \<and>
   upper (method (example_request ''get'' [])) \<in> set (permitted_methods example_resource) \<and>
   Resource_call example_loader example_resource (example_request ''get'' []) [7] [(''id'', 3)] =
     Inr (HttpResponse ''read get 2'' (Some ''text/plain'')) \<and>
   Resource_call example_loader example_resource (example_request ''POST'' ''a=1'') [] [] =
     Inr (HttpResponse ''create POST 0'' (Some ''text/plain'')) \<and>
   Resource_call example_loader example_resource (example_request ''PUT'' ''a=1'') [7] [] =
     Inr (HttpResponse ''update PUT 1'' (Some ''text/plain'')) \<and>
   Resource_call failing_loader example_resource (example_request ''PUT'' ''a=1'') [7] [] =
     Inl (FrameworkError ''malformed body'') \<and>
   Resource_call example_loader example_resource (example_request ''DELETE'' []) [7] [] =
     Inr (HttpResponse ''delete DELETE 1'' (Some ''text/plain''))"
  using call_dispatch_table [of example_resource "example_request ''get'' []" example_loader
      "[7]" "[(''id'', 3)]"]
    call_dispatch_table [of example_resource "example_request ''POST'' ''a=1''" example_loader "[]" "[]"]
    call_dispatch_table [of example_resource "example_request ''PUT'' ''a=1''" example_loader "[7]" "[]"]
    call_dispatch_table [of example_resource "example_request ''PUT'' ''a=1''" failing_loader "[7]" "[]"]
    call_dispatch_table [of example_resource "example_request ''DELETE'' []" example_loader "[7]" "[]"]
  by (simp add: passes_authentication_def example_resource_def Resource_init_def
      example_request_def upper_example_methods echo_handler_def str_nat.simps digit_def
      load_put_and_files_def example_loader_def failing_loader_def)

text \<open>
  Claim C2. For a request that passes the permission check and whose upper-cased method
  is not in \<open>permitted_methods\<close>, \<open>__call__\<close> returns
  \<open>HttpResponseNotAllowed(self.permitted_methods)\<close>: status 405, with the permitted
  methods in the \<open>Allow\<close> header. No handler runs: the result is the same whatever
  the four handlers and the body parser are.
\<close>

theorem call_method_not_allowed:
  assumes "passes_authentication self request"
    and "upper (method request) \<notin> set (permitted_methods self)"
  shows
    "Resource_call L self request args kwargs =
       Inr (HttpResponseNotAllowed (permitted_methods self)) \<and>
     Resource_call L' (self\<lparr>create := c, read := r, update := u, delete := d\<rparr>) request args kwargs =
       Inr (HttpResponseNotAllowed (permitted_methods self)) \<and>
     status_code (HttpResponseNotAllowed (permitted_methods self)) = 405 \<and>
     headers (HttpResponseNotAllowed (permitted_methods self)) =
       [(''Allow'', join '', '' (permitted_methods self))]"
proof -
  let ?sub = "self\<lparr>create := c, read := r, update := u, delete := d\<rparr>"
  have "passes_authentication ?sub request"
    using assms(1) by (simp add: passes_authentication_def)
  moreover have "upper (method request) \<notin> set (permitted_methods ?sub)"
    using assms(2) by simp
  ultimately have "Resource_call L' ?sub request args kwargs =
      Inr (HttpResponseNotAllowed (permitted_methods ?sub))"
    by (rule Resource_call_not_permitted)
  then show ?thesis
    by (simp add: Resource_call_not_permitted [OF assms] HttpResponseNotAllowed_def)
qed

theorem call_method_not_allowed_witness:
  "passes_authentication example_resource (example_request ''options'' []) \<and>
   upper (method (example_request ''options'' [])) \<notin> set (permitted_methods example_resource) \<and>
   Resource_call example_loader example_resource (example_request ''options'' []) [7] [] =
     Inr \<lparr>content = [], content_type = None, status_code = 405,
          headers = [(''Allow'', ''GET, POST, PUT, DELETE, HEAD'')]\<rparr>"
  using call_method_not_allowed [of example_resource "example_request ''options'' []"
      example_loader "[7]" "[]"]
  by (simp add: passes_authentication_def example_resource_def Resource_init_def
      example_request_def upper_example_methods HttpResponseNotAllowed_def HttpResponse_def)

text \<open>
  Claim C3, as the code has it. The permission check is made when the authentication
  object is true as a condition. When the resource has such an object and the object
  does not accept the request, \<open>__call__\<close> returns the object's challenge, whatever
  the permitted methods, the handlers, the body parser and the arguments are: the
  allow-list check and the dispatch are not reached. When the resource has no
  authentication object there is no permission check: \<open>__call__\<close> does what it does
  for a resource whose authentication object accepts the request.
\<close>

theorem call_challenge_first:
  "(authentication self = Some a \<and> truth_value a \<and> \<not> is_authenticated a request \<longrightarrow>
      Resource_call L self request args kwargs = Inr (challenge a) \<and>
      Resource_call L'
          (self\<lparr>permitted_methods := pm, create := c, read := r, update := u, delete := d\<rparr>)
          request args' kwargs' = Inr (challenge a)) \<and>
   (authentication self = None \<and> is_authenticated a' request \<longrightarrow>
      Resource_call L self request args kwargs =
        Resource_call L (self\<lparr>authentication := Some a'\<rparr>) request args kwargs)"
proof (intro conjI impI)
  assume rejected: "authentication self = Some a \<and> truth_value a \<and> \<not> is_authenticated a request"
  then show "Resource_call L self request args kwargs = Inr (challenge a)"
    by (simp add: Resource_call_challenged)
  let ?other = "self\<lparr>permitted_methods := pm, create := c, read := r, update := u, delete := d\<rparr>"
  from rejected have "authentication ?other = Some a" by simp
  with rejected show "Resource_call L' ?other request args' kwargs' = Inr (challenge a)"
    by (simp add: Resource_call_challenged)
next
  assume none: "authentication self = None \<and> is_authenticated a' request"
  then have "passes_authentication self request"
    and "passes_authentication (self\<lparr>authentication := Some a'\<rparr>) request"
    by (simp_all add: passes_authentication_def)
  then show "Resource_call L self request args kwargs =
      Resource_call L (self\<lparr>authentication := Some a'\<rparr>) request args kwargs"
    by (simp add: Resource_call_authentication_irrelevant)
qed

theorem call_challenge_first_witness:
  "authentication (example_resource\<lparr>authentication := Some rejecting_authentication\<rparr>) =
     Some rejecting_authentication \<and>
   truth_value rejecting_authentication \<and>
   \<not> is_authenticated rejecting_authentication (example_request ''GET'' []) \<and>
   Resource_call example_loader (example_resource\<lparr>authentication := Some rejecting_authentication\<rparr>)
       (example_request ''GET'' []) [] [] =
     Inr \<lparr>content = ''Authorization Required'', content_type = None, status_code = 401,
          headers = []\<rparr> \<and>
   authentication example_resource = None \<and>
   is_authenticated accepting_authentication (example_request ''GET'' []) \<and>
   Resource_call example_loader example_resource (example_request ''GET'' []) [] [] =
     Resource_call example_loader (example_resource\<lparr>authentication := Some accepting_authentication\<rparr>)
       (example_request ''GET'' []) [] []"
  using call_challenge_first [of "example_resource\<lparr>authentication := Some rejecting_authentication\<rparr>"
      rejecting_authentication "example_request ''GET'' []" example_loader "[]" "[]"]
    call_challenge_first [where self = example_resource and request = "example_request ''GET'' []"
      and a' = accepting_authentication and L = example_loader and args = "[]" and kwargs = "[]"]
  by (simp add: example_resource_def Resource_init_def rejecting_authentication_def
      accepting_authentication_def HttpResponse_def)

text \<open>
  Stated for every authentication object other than \<open>None\<close>, the claim fails: an
  object that is false as a condition and does not accept the request is not asked, and
  a permitted GET goes to \<open>read\<close>.
\<close>

theorem call_challenge_first_counterexample:
  "authentication (example_resource\<lparr>authentication := Some empty_authentication\<rparr>) =
     Some empty_authentication \<and>
   \<not> is_authenticated empty_authentication (example_request ''GET'' []) \<and>
   Resource_call example_loader (example_resource\<lparr>authentication := Some empty_authentication\<rparr>)
       (example_request ''GET'' []) [] [] =
     Inr (HttpResponse ''read GET 0'' (Some ''text/plain'')) \<and>
   Resource_call example_loader (example_resource\<lparr>authentication := Some empty_authentication\<rparr>)
       (example_request ''GET'' []) [] [] \<noteq>
     Inr (challenge empty_authentication)"
  by (simp add: example_resource_def Resource_init_def empty_authentication_def
      example_request_def upper_example_methods Resource_call_def echo_handler_def
      HttpResponse_def str_nat.simps digit_def)

text \<open>
  Claim C8. The four methods of the base class raise \<open>Http404\<close>, and \<open>__call__\<close>
  hands them the positional and keyword arguments it was called with, while they are
  declared with the request as their only argument. On a plain \<open>Resource()\<close>, a GET
  called with one positional argument passes both checks and is dispatched to the
  \<open>read\<close> of the base class; the call raises \<open>TypeError\<close>, where a permitted method
  outside the table raises \<open>Http404\<close> whatever the arguments are.
\<close>

theorem default_handlers_type_error:
  "passes_authentication (Resource_init None None :: nat resource) (example_request ''GET'' []) \<and>
   upper (method (example_request ''GET'' [])) \<in>
     set (permitted_methods (Resource_init None None :: nat resource)) \<and>
   upper (method (example_request ''GET'' [])) = ''GET'' \<and>
   read (Resource_init None None :: nat resource) = Resource_read \<and>
   Resource_call example_loader (Resource_init None None) (example_request ''GET'' []) [7 :: nat] [] =
     Inl TypeError \<and>
   Resource_call example_loader (Resource_init None None) (example_request ''GET'' []) [7 :: nat] [] \<noteq>
     Inl Http404"
  by (simp add: passes_authentication_def Resource_init_def example_request_def
      upper_example_methods Resource_call_def Resource_read_def)

text \<open>
  Called with the request alone, the handlers of the base class do raise \<open>Http404\<close>:
  for a request that passes both checks and reaches a handler that no subclass has
  overridden (for PUT: when \<open>load_put_and_files\<close> has returned).
\<close>

lemma default_handlers_request_alone:
  assumes "passes_authentication self request"
    and "upper (method request) \<in> set (permitted_methods self)"
  shows
    "(upper (method request) = ''GET'' \<and> read self = Resource_read \<longrightarrow>
        Resource_call L self request [] [] = Inl Http404) \<and>
     (upper (method request) = ''POST'' \<and> create self = Resource_create \<longrightarrow>
        Resource_call L self request [] [] = Inl Http404) \<and>
     (upper (method request) = ''PUT'' \<and> update self = Resource_update \<and>
      fst (load_put_and_files L request) = Returned \<longrightarrow>
        Resource_call L self request [] [] = Inl Http404) \<and>
     (upper (method request) = ''DELETE'' \<and> delete self = Resource_delete \<longrightarrow>
        Resource_call L self request [] [] = Inl Http404)"
  by (auto simp: Resource_call_permitted [OF assms] Resource_read_def Resource_create_def
      Resource_update_def Resource_delete_def split: prod.splits completion.splits)

lemma default_handlers_request_alone_example:
  "Resource_call example_loader base_resource (example_request ''GET'' []) [] [] = Inl Http404 \<and>
   Resource_call example_loader base_resource (example_request ''POST'' []) [] [] = Inl Http404 \<and>
   Resource_call example_loader base_resource (example_request ''PUT'' []) [] [] = Inl Http404 \<and>
   Resource_call example_loader base_resource (example_request ''DELETE'' []) [] [] = Inl Http404"
  using
    default_handlers_request_alone [of base_resource "example_request ''GET'' []" example_loader]
    default_handlers_request_alone [of base_resource "example_request ''POST'' []" example_loader]
    default_handlers_request_alone [of base_resource "example_request ''PUT'' []" example_loader]
    default_handlers_request_alone [of base_resource "example_request ''DELETE'' []" example_loader]
  by (simp add: passes_authentication_def base_resource_def Resource_init_def example_request_def
      upper_example_methods load_put_and_files_def example_loader_def)

text \<open>
  Claim C10, as the code has it. For a request that passes the permission check and
  whose upper-cased method is in \<open>permitted_methods\<close> but is none of GET, POST, PUT and
  DELETE, \<open>__call__\<close> raises \<open>Http404\<close>, whatever the handlers are.
\<close>

theorem call_permitted_unknown_method:
  assumes "passes_authentication self request"
    and "upper (method request) \<in> set (permitted_methods self)"
    and "upper (method request) \<notin> {''GET'', ''POST'', ''PUT'', ''DELETE''}"
  shows "Resource_call L self request args kwargs = Inl Http404"
  using assms(3) by (simp add: Resource_call_permitted [OF assms(1,2)])

theorem call_permitted_unknown_method_witness:
  "passes_authentication example_resource (example_request ''HEAD'' []) \<and>
   upper (method (example_request ''HEAD'' [])) \<in> set (permitted_methods example_resource) \<and>
   upper (method (example_request ''HEAD'' [])) \<notin> {''GET'', ''POST'', ''PUT'', ''DELETE''} \<and>
   Resource_call example_loader example_resource (example_request ''HEAD'' []) [7] [] = Inl Http404"
  using call_permitted_unknown_method [of example_resource "example_request ''HEAD'' []"
      example_loader "[7]" "[]"]
  by (simp add: passes_authentication_def example_resource_def Resource_init_def
      example_request_def upper_example_methods)

text \<open>
  Without the permission check in its premise the claim fails: a permitted HEAD on a
  resource whose authentication object rejects the request gets the challenge.
\<close>

theorem call_permitted_unknown_method_counterexample:
  "upper (method (example_request ''HEAD'' [])) \<in>
     set (permitted_methods (example_resource\<lparr>authentication := Some rejecting_authentication\<rparr>)) \<and>
   upper (method (example_request ''HEAD'' [])) \<notin> {''GET'', ''POST'', ''PUT'', ''DELETE''} \<and>
   Resource_call example_loader (example_resource\<lparr>authentication := Some rejecting_authentication\<rparr>)
       (example_request ''HEAD'' []) [] [] = Inr (challenge rejecting_authentication) \<and>
   Resource_call example_loader (example_resource\<lparr>authentication := Some rejecting_authentication\<rparr>)
       (example_request ''HEAD'' []) [] [] \<noteq> Inl Http404"
  by (simp add: example_resource_def Resource_init_def example_request_def
      upper_example_methods Resource_call_def rejecting_authentication_def)

subsection \<open>Resource.__init__\<close>

text \<open>
  Claim C9, as the code has it. A resource built with \<open>permitted_methods\<close> \<open>None\<close> or
  empty permits exactly \<open>['GET']\<close>; built with a non-empty sequence it stores the
  elements upper-cased, so a request is let through exactly when its upper-cased method
  is the upper-cased form of some element. On a resource with the default list (the
  base class or a subclass overriding handlers), a POST, PUT or DELETE request that
  passes the permission check gets the 405 response.
\<close>

theorem init_permitted_methods:
  "(permitted = None \<or> permitted = Some [] \<longrightarrow>
      permitted_methods (Resource_init auth permitted :: 'a resource) = [''GET'']) \<and>
   (ops \<noteq> [] \<longrightarrow>
      permitted_methods (Resource_init auth (Some ops) :: 'a resource) = map upper ops) \<and>
   (ops \<noteq> [] \<longrightarrow>
      (upper (method request) \<in>
         set (permitted_methods (Resource_init auth (Some ops) :: 'a resource))) =
      (\<exists>op \<in> set ops. upper op = upper (method request))) \<and>
   ((permitted = None \<or> permitted = Some []) \<and>
    passes_authentication
      ((Resource_init auth permitted :: 'a resource)
         \<lparr>create := c, read := r, update := u, delete := d\<rparr>) request \<and>
    upper (method request) \<in> {''POST'', ''PUT'', ''DELETE''} \<longrightarrow>
      Resource_call L
        ((Resource_init auth permitted :: 'a resource)
           \<lparr>create := c, read := r, update := u, delete := d\<rparr>) request args kwargs =
        Inr (HttpResponseNotAllowed [''GET'']) \<and>
      status_code (HttpResponseNotAllowed [''GET'']) = 405)"
proof -
  let ?self = "(Resource_init auth permitted :: 'a resource)
      \<lparr>create := c, read := r, update := u, delete := d\<rparr>"
  have none: "permitted = None \<or> permitted = Some [] \<Longrightarrow>
      permitted_methods (Resource_init auth permitted :: 'a resource) = [''GET'']" for permitted
    by (auto simp: Resource_init_def)
  have some: "permitted_methods (Resource_init auth (Some ops) :: 'a resource) = map upper ops"
    if "ops \<noteq> []"
    using that by (cases ops) (simp_all add: Resource_init_def)
  have allowed: "(upper (method request) \<in> set (permitted_methods (Resource_init auth (Some ops) :: 'a resource))) =
      (\<exists>op \<in> set ops. upper op = upper (method request))" if "ops \<noteq> []"
  proof -
    have "set (permitted_methods (Resource_init auth (Some ops) :: 'a resource)) = upper ` set ops"
      using some [OF that] by simp
    then show ?thesis
      by (metis (no_types) image_iff)
  qed
  have refused: "Resource_call L ?self request args kwargs = Inr (HttpResponseNotAllowed [''GET''])"
    if "permitted = None \<or> permitted = Some []"
      and "passes_authentication ?self request"
      and "upper (method request) \<in> {''POST'', ''PUT'', ''DELETE''}"
  proof -
    have pm: "permitted_methods ?self = [''GET'']"
      using none [OF that(1)] by simp
    with that(3) have "upper (method request) \<notin> set (permitted_methods ?self)"
      by auto
    with that(2) show ?thesis
      using pm Resource_call_not_permitted [of ?self request L args kwargs] by simp
  qed
  have status: "status_code (HttpResponseNotAllowed [''GET'']) = 405"
    by (simp add: HttpResponseNotAllowed_def)
  show ?thesis
    using none some allowed refused status by blast
qed

theorem init_permitted_methods_witness:
  "permitted_methods (Resource_init (Some accepting_authentication) (Some []) :: nat resource) =
     [''GET''] \<and>
   permitted_methods (Resource_init None (Some [''get'', ''Post'']) :: nat resource) =
     [''GET'', ''POST''] \<and>
   upper (method (example_request ''get'' [])) \<in>
     set (permitted_methods (Resource_init None (Some [''get'', ''Post'']) :: nat resource)) \<and>
   passes_authentication
     ((Resource_init (Some accepting_authentication) (Some []))
        \<lparr>create := echo_handler ''create'', read := echo_handler ''read'',
         update := echo_handler ''update'', delete := echo_handler ''delete''\<rparr>)
     (example_request ''delete'' []) \<and>
   Resource_call example_loader
     ((Resource_init (Some accepting_authentication) (Some []))
        \<lparr>create := echo_handler ''create'', read := echo_handler ''read'',
         update := echo_handler ''update'', delete := echo_handler ''delete''\<rparr>)
     (example_request ''delete'' []) [] [] =
     Inr \<lparr>content = [], content_type = None, status_code = 405, headers = [(''Allow'', ''GET'')]\<rparr>"
  using
    init_permitted_methods [where permitted = "Some []" and auth = "Some accepting_authentication"
      and ops = "[''get'', ''Post'']" and request = "example_request ''delete'' []"
      and c = "echo_handler ''create''" and r = "echo_handler ''read''"
      and u = "echo_handler ''update''" and d = "echo_handler ''delete''"
      and L = example_loader and args = "[]" and kwargs = "[]"]
    init_permitted_methods [where permitted = None and auth = None
      and ops = "[''get'', ''Post'']" and request = "example_request ''get'' []"]
  by (simp add: passes_authentication_def accepting_authentication_def example_request_def
      upper_example_methods HttpResponseNotAllowed_def HttpResponse_def Resource_init_def)

text \<open>
  Without the permission check the last part fails: a POST on a default resource whose
  authentication object rejects the request gets the challenge (here a 401) and not
  the 405.
\<close>

theorem init_permitted_methods_counterexample:
  "permitted_methods (Resource_init (Some rejecting_authentication) None :: nat resource) =
     [''GET''] \<and>
   upper (method (example_request ''POST'' ''a=1'')) = ''POST'' \<and>
   Resource_call example_loader (Resource_init (Some rejecting_authentication) None)
       (example_request ''POST'' ''a=1'') ([] :: nat list) [] =
     Inr (challenge rejecting_authentication) \<and>
   status_code (challenge rejecting_authentication) = 401 \<and>
   Resource_call example_loader (Resource_init (Some rejecting_authentication) None)
       (example_request ''POST'' ''a=1'') ([] :: nat list) [] \<noteq>
     Inr (HttpResponseNotAllowed [''GET''])"
  by (simp add: Resource_init_def example_request_def upper_example_methods Resource_call_def
      rejecting_authentication_def HttpResponseNotAllowed_def HttpResponse_def)

subsection \<open>load_put_and_files\<close>

text \<open>
  Claim C4. A request whose method is not \<open>'PUT'\<close> is left as it is, and the body
  parser is not run (the result does not depend on it). For a request whose method is
  \<open>'PUT'\<close>, the body parser runs on the request relabelled \<open>'POST'\<close>; when the
  parser returns, \<open>load_put_and_files\<close> returns, with \<open>PUT\<close> set to the \<open>POST\<close>
  the parser left and the method set back to \<open>'PUT'\<close>. So whenever
  \<open>load_put_and_files\<close> returns, the method of the request is what it was.
\<close>

theorem load_put_and_files_method_unchanged:
  "(method request \<noteq> ''PUT'' \<longrightarrow> load_put_and_files L request = (Returned, request)) \<and>
   (method request = ''PUT'' \<and> L (request\<lparr>method := ''POST''\<rparr>) = (Returned, r) \<longrightarrow>
      load_put_and_files L request = (Returned, r\<lparr>PUT := Some (POST r), method := ''PUT''\<rparr>)) \<and>
   (load_put_and_files L request = (Returned, request') \<longrightarrow>
      method request' = method request \<and>
      (method request = ''PUT'' \<longrightarrow> PUT request' = Some (POST request')))"
  by (auto simp: load_put_and_files_def split: prod.splits completion.splits)

theorem load_put_and_files_method_unchanged_witness:
  "method (example_request ''GET'' ''a=1'') \<noteq> ''PUT'' \<and>
   load_put_and_files example_loader (example_request ''GET'' ''a=1'') =
     (Returned, example_request ''GET'' ''a=1'') \<and>
   method (example_request ''PUT'' ''a=1'') = ''PUT'' \<and>
   load_put_and_files example_loader (example_request ''PUT'' ''a=1'') =
     (Returned, \<lparr>method = ''PUT'', raw_post_data = ''a=1'', POST = [(''POST'', ''a=1'')],
                 FILES = [], PUT = Some [(''POST'', ''a=1'')]\<rparr>)"
  using load_put_and_files_method_unchanged [of "example_request ''GET'' ''a=1''" example_loader]
    load_put_and_files_method_unchanged [of "example_request ''PUT'' ''a=1''" example_loader
      "\<lparr>method = ''POST'', raw_post_data = ''a=1'', POST = [(''POST'', ''a=1'')],
        FILES = [], PUT = None\<rparr>"]
  by (simp add: example_request_def example_loader_def)

subsection \<open>Responders\<close>

text \<open>
  Claim C5. \<open>SerializeResponder.error\<close> returns a response with the given status code
  and the responder's mimetype. Its body is \<open>'Error '\<close> and the decimal text of the
  status code, followed by the heading \<open>'\n\nErrors:\n'\<close> and
  \<open>error_dict.as_text()\<close> exactly when \<open>error_dict\<close> is not empty; for an empty
  dictionary the body has no line break at all.
\<close>

theorem error_response_body:
  "status_code (SerializeResponder_error as_text self status d) = status \<and>
   content_type (SerializeResponder_error as_text self status d) = mimetype self \<and>
   content (SerializeResponder_error as_text self status d) =
     ''Error '' @ str_int status @ (if d \<noteq> [] then errors_heading @ as_text d else []) \<and>
   ((content (SerializeResponder_error as_text self status d) =
       ''Error '' @ str_int status @ errors_heading @ as_text d) = (d \<noteq> [])) \<and>
   (newline \<in> set (content (SerializeResponder_error as_text self status d))) = (d \<noteq> [])"
  using str_int_no_newline [of status]
  by (simp add: SerializeResponder_error_def HttpResponse_def response_write_def Let_def
      errors_heading_def) (simp add: newline_def)

theorem error_response_body_witness:
  "SerializeResponder_error example_as_text XMLResponder_init 400
       [(''name'', [''This field is required.'']), (''age'', [''Enter a number.''])] =
     \<lparr>content = ''Error 400'' @ [newline, newline] @ ''Errors:'' @ [newline] @ ''* name'' @
                 [newline] @ ''* age'',
      content_type = Some ''application/xml'', status_code = 400, headers = []\<rparr> \<and>
   SerializeResponder_error example_as_text XMLResponder_init 404 [] =
     \<lparr>content = ''Error 404'', content_type = Some ''application/xml'', status_code = 404,
      headers = []\<rparr>"
  using error_response_body [of example_as_text XMLResponder_init 400
      "[(''name'', [''This field is required.'']), (''age'', [''Enter a number.''])]"]
    error_response_body [of example_as_text XMLResponder_init 404 "[]"]
  by (simp add: SerializeResponder_error_def HttpResponse_def response_write_def Let_def
      errors_heading_def XMLResponder_init_def SerializeResponder_init_def example_as_text_def
      str_int_def str_nat.simps digit_def)

text \<open>
  Claim C6. \<open>JSONResponder()\<close> is the \<open>SerializeResponder\<close> with format \<open>'json'\<close> and
  mimetype \<open>'application/json'\<close>; \<open>XMLResponder()\<close> is the one with format \<open>'xml'\<close>
  and mimetype \<open>'application/xml'\<close>.
\<close>

theorem responder_formats:
  "JSONResponder_init = SerializeResponder_init ''json'' (Some ''application/json'') \<and>
   format JSONResponder_init = ''json'' \<and>
   mimetype JSONResponder_init = Some ''application/json'' \<and>
   XMLResponder_init = SerializeResponder_init ''xml'' (Some ''application/xml'') \<and>
   format XMLResponder_init = ''xml'' \<and>
   mimetype XMLResponder_init = Some ''application/xml''"
  by (simp add: JSONResponder_init_def XMLResponder_init_def SerializeResponder_init_def)

text \<open>
  Claim C7. \<open>SerializeResponder.list\<close> returns the response whose body is
  \<open>serializers.serialize(self.format, queryset)\<close>, whose mimetype is \<open>self.mimetype\<close>
  and whose status code is the 200 a new response has; \<open>SerializeResponder.element\<close>
  returns what \<open>list\<close> returns for the one-element list \<open>[elem]\<close>.
\<close>

theorem list_and_element_response:
  "content (SerializeResponder_list serialize self queryset) = serialize (format self) queryset \<and>
   content_type (SerializeResponder_list serialize self queryset) = mimetype self \<and>
   status_code (SerializeResponder_list serialize self queryset) = 200 \<and>
   SerializeResponder_list serialize self queryset =
     HttpResponse (serialize (format self) queryset) (mimetype self) \<and>
   SerializeResponder_element serialize self elem =
     SerializeResponder_list serialize self [elem] \<and>
   content (SerializeResponder_element serialize self elem) = serialize (format self) [elem] \<and>
   content_type (SerializeResponder_element serialize self elem) = mimetype self \<and>
   status_code (SerializeResponder_element serialize self elem) = 200"
  by (simp add: SerializeResponder_list_def SerializeResponder_element_def
      SerializeResponder_render_def HttpResponse_def)

theorem list_and_element_response_witness:
  "SerializeResponder_list example_serialize JSONResponder_init [1, 2, 3] =
     \<lparr>content = ''json:1,2,3'', content_type = Some ''application/json'', status_code = 200,
      headers = []\<rparr> \<and>
   SerializeResponder_element example_serialize XMLResponder_init 7 =
     \<lparr>content = ''xml:7'', content_type = Some ''application/xml'', status_code = 200,
      headers = []\<rparr>"
  using list_and_element_response [of example_serialize JSONResponder_init "[1, 2, 3]" 7]
    list_and_element_response [of example_serialize XMLResponder_init "[]" 7]
  by (simp add: SerializeResponder_list_def SerializeResponder_element_def
      SerializeResponder_render_def HttpResponse_def JSONResponder_init_def
      XMLResponder_init_def SerializeResponder_init_def example_serialize_def
      str_nat.simps digit_def)

end
